theory Spec2Isabelle
  imports Complex_Main
begin

section \<open>Exceptions, tensors and collaborators\<close>

text \<open>
  The development embeds \<^verbatim>\<open>CausalLM.generate\<close> of
  \<^verbatim>\<open>wenet/LLM/causal_model.py\<close>. Every exception the procedure can raise is a
  value: \<open>ValueError\<close> is what Python's \<^verbatim>\<open>min\<close>/\<^verbatim>\<open>max\<close> raise on an empty
  sequence (and \<^verbatim>\<open>list.index\<close> on a missing element), \<open>AssertionError\<close> is the
  failed \<^verbatim>\<open>assert\<close> of line 99, \<open>AttributeError\<close> is a read of an attribute the
  object does not have, \<open>KeyError\<close> a missing dictionary key, \<open>RuntimeError\<close> is
  torch's shape mismatch and \<open>IndexError\<close> an index out of range.
\<close>

datatype error = ValueError | AssertionError | AttributeError | KeyError | RuntimeError | IndexError

text \<open>
  A two-dimensional integer tensor is the list of its rows; a four-dimensional float
  tensor is nested four deep. Device and dtype are carried through the source unchanged
  and are left out.
\<close>

type_synonym tensor2 = "int list list"
type_synonym tensor4 = "real list list list list"

text \<open>
  The Python variable \<^verbatim>\<open>kv_caches\<close> holds either a list of pairs (it starts as the
  empty list) or a single two-element tuple of tensors.
\<close>

datatype kv_caches = KvList "(tensor4 \<times> tensor4) list" | KvTuple tensor4 tensor4

text \<open>
  The effects the claims speak about are logged: each \<^verbatim>\<open>torch.zeros\<close> of the cache
  set-up, each \<^verbatim>\<open>torch.full\<close> of the token buffers, each decoder invocation with
  the cache object it is handed, and each in-place write into the token buffer
  (\<^verbatim>\<open>index_copy_\<close>, line 168) with the column written to, the prompt-mask column, the
  sampled tokens and the tokens written.
\<close>

datatype event =
    Torch_zeros "nat \<times> nat \<times> nat \<times> nat"
  | Torch_full "nat \<times> nat"
  | Decoder_call kv_caches
  | Token_write nat "bool list" "int list" "int list"

text \<open>
  \<^verbatim>\<open>DecoderOnly\<close> is an external collaborator: the attributes \<^verbatim>\<open>generate\<close> reads
  and its forward call, an opaque function of the embedded input, the attention mask, the
  positions and the cache.
\<close>

record ('e, 'o) DecoderOnly =
  hidden_size :: nat
  pos_enc_max_len :: int
  n_kv_head :: nat
  head_dim :: nat
  call :: "'e \<Rightarrow> bool list list \<Rightarrow> nat list \<Rightarrow> kv_caches \<Rightarrow> 'o \<times> kv_caches"

record config =
  num_hidden_layers :: int

text \<open>
  The attributes of a \<^verbatim>\<open>CausalLM\<close> object. \<open>config\<close> is optional: an attribute of a
  Python object exists only once something assigns it.
\<close>

record ('e, 'o) CausalLM =
  embed :: "tensor2 \<Rightarrow> 'e"
  decoder :: "('e, 'o) DecoderOnly"
  sos :: int
  eos :: int
  vocab_size :: nat
  tie_word_embedding :: bool
  ignore_id :: int
  config :: "config option"

text \<open>
  What the module imports and \<^verbatim>\<open>generate\<close> uses: the constant \<^verbatim>\<open>IGNORE_ID\<close> of
  \<^verbatim>\<open>wenet.utils.common\<close> (not among the sources, hence a parameter), the \<^verbatim>\<open>sampler\<close>
  of \<^verbatim>\<open>wenet.LLM.sampler\<close>, which draws from torch's generator (the state \<open>'g\<close>), and
  \<^verbatim>\<open>index_select(1, \<cdot>)\<close> on the opaque decoder output.
\<close>

record ('o, 'g) imported =
  IGNORE_ID :: int
  sampler :: "'o \<Rightarrow> real list option \<Rightarrow> real list \<Rightarrow> int list \<Rightarrow> 'g \<Rightarrow> int list \<times> 'g"
  out_index_select :: "'o \<Rightarrow> int list \<Rightarrow> 'o"

section \<open>Construction\<close>

text \<open>
  \<^verbatim>\<open>__init__\<close> (lines 12-41) assigns \<^verbatim>\<open>embed\<close>, \<^verbatim>\<open>out\<close>, \<^verbatim>\<open>decoder\<close>,
  \<^verbatim>\<open>sos\<close>, \<^verbatim>\<open>eos\<close>, \<^verbatim>\<open>vocab_size\<close>, \<^verbatim>\<open>criterion_att\<close>,
  \<^verbatim>\<open>tie_word_embedding\<close> and \<^verbatim>\<open>ignore_id\<close>; it assigns no \<^verbatim>\<open>config\<close>. The
  embedding module it creates is passed in as \<open>embed_module\<close>; \<^verbatim>\<open>out\<close> and
  \<^verbatim>\<open>criterion_att\<close> are not read by \<^verbatim>\<open>generate\<close>.
\<close>

definition CausalLM_init ::
  "nat \<Rightarrow> ('e, 'o) DecoderOnly \<Rightarrow> (string \<rightharpoonup> int) \<Rightarrow> bool \<Rightarrow> int \<Rightarrow> (tensor2 \<Rightarrow> 'e)
     \<Rightarrow> error + ('e, 'o) CausalLM" where
  "CausalLM_init vocab dec special_tokens tie ignore embed_module =
     (case special_tokens ''sos'' of
        None \<Rightarrow> Inl KeyError
      | Some s \<Rightarrow>
          (case special_tokens ''eos'' of
             None \<Rightarrow> Inl KeyError
           | Some e \<Rightarrow>
               Inr \<lparr>embed = embed_module, decoder = dec, sos = s, eos = e, vocab_size = vocab,
                    tie_word_embedding = tie, ignore_id = ignore, config = None\<rparr>))"

section \<open>Lengths (lines 95-99)\<close>

definition py_min :: "nat list \<Rightarrow> error + nat" where
  "py_min xs = (case xs of [] \<Rightarrow> Inl ValueError | x # rest \<Rightarrow> Inr (fold min rest x))"

definition py_max :: "nat list \<Rightarrow> error + nat" where
  "py_max xs = (case xs of [] \<Rightarrow> Inl ValueError | x # rest \<Rightarrow> Inr (fold max rest x))"

section \<open>KV caches (lines 101-108)\<close>

definition zeros :: "nat \<times> nat \<times> nat \<times> nat \<Rightarrow> tensor4" where
  "zeros shape = (case shape of (a, b, c, d) \<Rightarrow>
     replicate a (replicate b (replicate c (replicate d 0))))"

text \<open>
  The loop body assigns the fresh pair to \<^verbatim>\<open>kv_caches\<close> itself
  (\<^verbatim>\<open>kv_caches = (k_cache, v_cache)\<close>); nothing is appended to the list.
\<close>

fun build_kv_caches :: "nat \<Rightarrow> nat \<times> nat \<times> nat \<times> nat \<Rightarrow> kv_caches \<Rightarrow> kv_caches" where
  "build_kv_caches 0 shape kv = kv"
| "build_kv_caches (Suc n) shape kv = build_kv_caches n shape (KvTuple (zeros shape) (zeros shape))"

section \<open>Preparing the inputs (lines 110-128)\<close>

definition full :: "nat \<Rightarrow> nat \<Rightarrow> int \<Rightarrow> tensor2" where
  "full rows cols v = replicate rows (replicate cols v)"

text \<open>
  The right-padding loop: row \<open>i\<close> of the token buffer receives the prompt over its first
  \<open>len(p)\<close> entries, row \<open>i\<close> of the working buffer the first \<open>min_prompt_len\<close> tokens.
\<close>

definition right_padding :: "int list list \<Rightarrow> nat \<Rightarrow> tensor2 \<times> tensor2 \<Rightarrow> tensor2 \<times> tensor2" where
  "right_padding prompts_tokens min_prompt_len bufs =
     fold (\<lambda>(i, p) (token_ids_tensor, input_token_ids_tensor).
             (token_ids_tensor[i := p @ drop (length p) (token_ids_tensor ! i)],
              input_token_ids_tensor[i := take min_prompt_len p
                 @ drop min_prompt_len (input_token_ids_tensor ! i)]))
          (enumerate 0 prompts_tokens) bufs"

text \<open>
  \<^verbatim>\<open>torch.cat(\<dots>, dim=-1)\<close> of two-dimensional tensors: the row counts must agree.
\<close>

definition cat_last :: "tensor2 \<Rightarrow> tensor2 \<Rightarrow> error + tensor2" where
  "cat_last a b =
     (if length a = length b then Inr (map (\<lambda>(x, y). x @ y) (zip a b)) else Inl RuntimeError)"

text \<open>
  Lines 123-128. \<^verbatim>\<open>torch.tensor([self.sos] * batch_size).unsqueeze(0)\<close> is one row of
  \<open>batch_size\<close> entries. The second concatenation takes \<^verbatim>\<open>token_ids_tensor\<close>, which
  the first has just rebound, and not the working buffer.
\<close>

definition add_sos :: "int \<Rightarrow> nat \<Rightarrow> tensor2 \<times> tensor2 \<Rightarrow> error + tensor2 \<times> tensor2" where
  "add_sos sos_id batch_size bufs =
     (case bufs of (token_ids_tensor, input_token_ids_tensor) \<Rightarrow>
        (let sos_t = [replicate batch_size sos_id] in
         case cat_last sos_t token_ids_tensor of
           Inl e \<Rightarrow> Inl e
         | Inr token_ids_tensor' \<Rightarrow>
             (case cat_last sos_t token_ids_tensor' of
                Inl e \<Rightarrow> Inl e
              | Inr input_token_ids_tensor' \<Rightarrow> Inr (token_ids_tensor', input_token_ids_tensor'))))"

definition prepare_inputs :: "int \<Rightarrow> int \<Rightarrow> int list list \<Rightarrow> nat \<Rightarrow> nat \<Rightarrow> nat
    \<Rightarrow> error + tensor2 \<times> tensor2" where
  "prepare_inputs ignore sos_id prompts_tokens batch_size min_prompt_len max_prompt_len =
     add_sos sos_id batch_size
       (right_padding prompts_tokens min_prompt_len
          (full batch_size max_prompt_len ignore, full batch_size min_prompt_len ignore))"

section \<open>Masks and index operations (lines 129-145, 162-175)\<close>

text \<open>
  \<^verbatim>\<open>torch.triu(torch.ones(1, 1, n, n), diagonal=1)\<close>, without its two leading
  dimensions of size one: entry \<open>(i, j)\<close> is true exactly when \<open>i < j\<close>.
\<close>

definition triu_mask :: "nat \<Rightarrow> bool list list" where
  "triu_mask n = map (\<lambda>i. map (\<lambda>j. i < j) [0..<n]) [0..<n]"

definition index_select_rows :: "'a list \<Rightarrow> nat list \<Rightarrow> error + 'a list" where
  "index_select_rows t idx =
     (if list_all (\<lambda>i. i < length t) idx then Inr (map (nth t) idx) else Inl IndexError)"

text \<open>\<^verbatim>\<open>t.index_select(1, j).squeeze(dim=1)\<close> for a scalar index \<open>j\<close>.\<close>

definition select_column :: "'a list list \<Rightarrow> nat \<Rightarrow> error + 'a list" where
  "select_column t j =
     (if list_all (\<lambda>row. j < length row) t then Inr (map (\<lambda>row. row ! j) t) else Inl IndexError)"

text \<open>
  \<^verbatim>\<open>torch.where\<close> on one-dimensional tensors: the condition and the second operand
  are columns of equally many rows, the third operand has their length or is broadcast
  from length one.
\<close>

definition torch_where :: "bool list \<Rightarrow> int list \<Rightarrow> int list \<Rightarrow> error + int list" where
  "torch_where cond a b =
     (if length a \<noteq> length cond then Inl RuntimeError
      else if length b = length cond then
        Inr (map (\<lambda>(c, x, y). if c then x else y) (zip cond (zip a b)))
      else if length b = 1 then
        Inr (map (\<lambda>(c, x). if c then x else hd b) (zip cond a))
      else Inl RuntimeError)"

text \<open>\<^verbatim>\<open>t.index_copy_(1, j, src.unsqueeze(dim=1))\<close> for a scalar index \<open>j\<close>.\<close>

definition index_copy_column :: "tensor2 \<Rightarrow> nat \<Rightarrow> int list \<Rightarrow> error + tensor2" where
  "index_copy_column t j src =
     (if length src \<noteq> length t then Inl RuntimeError
      else if list_all (\<lambda>row. j < length row) t then
        Inr (map (\<lambda>(row, v). row[j := v]) (zip t src))
      else Inl IndexError)"

section \<open>The decode loop (lines 147-178)\<close>

record ('e, 'g) decode_state =
  input_token_embeding :: 'e
  att_mask :: "bool list list"
  input_positions_tensor :: "nat list"
  kv :: kv_caches
  output_positions_tensor :: "int list"
  token_ids_tensor :: tensor2
  output_index :: nat
  rng :: 'g

text \<open>The tensors the loop reads and never rebinds.\<close>

record loop_consts =
  prompt_mask_tensor :: "bool list list"
  mask_tensor :: "bool list list"
  temperatures_tensor :: "real list option"
  top_ps_tensor :: "real list"
  top_ks_tensor :: "int list"

text \<open>
  One iteration of the loop body, with the effects it has had when it ends or raises: the
  decoder invocation comes first, the buffer write of line 168 precedes the mask
  selection of line 173.
\<close>

definition decode_step ::
  "('o, 'g) imported \<Rightarrow> ('e, 'o) CausalLM \<Rightarrow> loop_consts \<Rightarrow> ('e, 'g) decode_state
     \<Rightarrow> event list \<times> (error + ('e, 'g) decode_state)" where
  "decode_step env self c st =
     (case call (decoder self) (input_token_embeding st) (att_mask st)
             (input_positions_tensor st) (kv st) of
        (decoder_out, kv') \<Rightarrow>
     (case sampler env (out_index_select env decoder_out (output_positions_tensor st))
             (temperatures_tensor c) (top_ps_tensor c) (top_ks_tensor c) (rng st) of
        (next_token_ids, g') \<Rightarrow>
     (case select_column (prompt_mask_tensor c) (output_index st) of
        Inl e \<Rightarrow> ([Decoder_call (kv st)], Inl e)
      | Inr curr_prompt_mask \<Rightarrow>
     (case select_column (token_ids_tensor st) (output_index st) of
        Inl e \<Rightarrow> ([Decoder_call (kv st)], Inl e)
      | Inr curr_token_ids \<Rightarrow>
     (case torch_where curr_prompt_mask curr_token_ids next_token_ids of
        Inl e \<Rightarrow> ([Decoder_call (kv st)], Inl e)
      | Inr output_token_ids \<Rightarrow>
     (case index_copy_column (token_ids_tensor st) (output_index st) output_token_ids of
        Inl e \<Rightarrow> ([Decoder_call (kv st)], Inl e)
      | Inr token_ids' \<Rightarrow>
     (let tr = [Decoder_call (kv st),
                Token_write (output_index st) curr_prompt_mask next_token_ids output_token_ids]
      in
      case index_select_rows (mask_tensor c) [output_index st] of
        Inl e \<Rightarrow> (tr, Inl e)
      | Inr curr_mask_tensor \<Rightarrow>
          (tr,
           Inr \<lparr>input_token_embeding = embed self (map (\<lambda>t. [t]) output_token_ids),
                att_mask = curr_mask_tensor,
                input_positions_tensor = [output_index st],
                kv = kv',
                output_positions_tensor = [0],
                token_ids_tensor = token_ids',
                output_index = output_index st + 1,
                rng = g'\<rparr>))))))))"

text \<open>
  \<^verbatim>\<open>for i in range(n)\<close>: an exception in the body ends the loop.
\<close>

fun decode_loop ::
  "('o, 'g) imported \<Rightarrow> ('e, 'o) CausalLM \<Rightarrow> loop_consts \<Rightarrow> nat \<Rightarrow> ('e, 'g) decode_state
     \<Rightarrow> event list \<times> (error + ('e, 'g) decode_state)" where
  "decode_loop env self c 0 st = ([], Inr st)"
| "decode_loop env self c (Suc n) st =
     (case decode_step env self c st of
        (tr, Inl e) \<Rightarrow> (tr, Inl e)
      | (tr, Inr st') \<Rightarrow>
          (case decode_loop env self c n st' of
             (tr', r) \<Rightarrow> (tr @ tr', r)))"

section \<open>Output extraction (lines 180-190)\<close>

text \<open>Python's \<^verbatim>\<open>xs[start:stop]\<close>: a negative bound counts from the end, both are clamped.\<close>

definition py_bound :: "int \<Rightarrow> nat \<Rightarrow> nat" where
  "py_bound i n = (if i < 0 then nat (max 0 (i + int n)) else min (nat i) n)"

definition py_slice :: "'a list \<Rightarrow> int \<Rightarrow> int \<Rightarrow> 'a list" where
  "py_slice xs start stop =
     (let a = py_bound start (length xs); b = py_bound stop (length xs)
      in take (b - a) (drop a xs))"

fun py_index :: "'a list \<Rightarrow> 'a \<Rightarrow> error + nat" where
  "py_index [] v = Inl ValueError"
| "py_index (x # xs) v =
     (if x = v then Inr 0
      else (case py_index xs v of Inl e \<Rightarrow> Inl e | Inr k \<Rightarrow> Inr (Suc k)))"

text \<open>The slice of one row that lines 183-184 take, before the end-of-sequence cut.\<close>

definition continuation :: "int list \<Rightarrow> int \<Rightarrow> int list \<Rightarrow> int list" where
  "continuation prompt output_len tokens =
     py_slice tokens (int (length prompt)) (int (length prompt) + output_len)"

definition trim_output :: "int \<Rightarrow> int list \<Rightarrow> int \<Rightarrow> int list \<Rightarrow> error + int list" where
  "trim_output eos_id prompt output_len tokens =
     (let trimmed_output = continuation prompt output_len tokens in
      if eos_id \<in> set trimmed_output then
        (case py_index trimmed_output eos_id of
           Inl e \<Rightarrow> Inl e
         | Inr eos_index \<Rightarrow> Inr (py_slice trimmed_output 0 (int eos_index)))
      else Inr trimmed_output)"

fun extract_results :: "int \<Rightarrow> int list list \<Rightarrow> int \<Rightarrow> (nat \<times> int list) list
    \<Rightarrow> error + int list list" where
  "extract_results eos_id prompts_tokens output_len [] = Inr []"
| "extract_results eos_id prompts_tokens output_len ((i, tokens) # rest) =
     (if i < length prompts_tokens then
        (case trim_output eos_id (prompts_tokens ! i) output_len tokens of
           Inl e \<Rightarrow> Inl e
         | Inr t \<Rightarrow>
             (case extract_results eos_id prompts_tokens output_len rest of
                Inl e \<Rightarrow> Inl e
              | Inr ts \<Rightarrow> Inr (t # ts)))
      else Inl IndexError)"

section \<open>generate\<close>

text \<open>
  Lines 129-143: the prompt mask, the full causal mask and the per-example sampling
  parameters. \<^verbatim>\<open>None if not temperature\<close> drops a temperature that is absent or zero.
\<close>

definition loop_constants ::
  "int \<Rightarrow> tensor2 \<Rightarrow> nat \<Rightarrow> nat \<Rightarrow> real option \<Rightarrow> real \<Rightarrow> int \<Rightarrow> loop_consts" where
  "loop_constants ignore token_ids batch_size max_prompt_len temperature top_p top_k =
     \<lparr>prompt_mask_tensor = map (map (\<lambda>t. t \<noteq> ignore)) token_ids,
      mask_tensor = triu_mask max_prompt_len,
      temperatures_tensor =
        (case temperature of
           None \<Rightarrow> None
         | Some t \<Rightarrow> if t = 0 then None else Some (replicate batch_size t)),
      top_ps_tensor = replicate batch_size top_p,
      top_ks_tensor = replicate batch_size top_k\<rparr>"

text \<open>
  The loop variables as lines 130-147 leave them: the working buffer is embedded, the
  positions are \<open>0, \<dots>, min_prompt_len - 1\<close>, the output position is
  \<open>min_prompt_len - 1\<close> and the write index is \<open>min_prompt_len\<close>.
\<close>

definition initial_state ::
  "('e, 'o) CausalLM \<Rightarrow> tensor2 \<Rightarrow> tensor2 \<Rightarrow> bool list list \<Rightarrow> nat \<Rightarrow> kv_caches \<Rightarrow> 'g
     \<Rightarrow> ('e, 'g) decode_state" where
  "initial_state self token_ids input_token_ids curr_mask_tensor min_prompt_len kv_caches g =
     \<lparr>input_token_embeding = embed self input_token_ids,
      att_mask = curr_mask_tensor,
      input_positions_tensor = [0..<min_prompt_len],
      kv = kv_caches,
      output_positions_tensor = [int min_prompt_len - 1],
      token_ids_tensor = token_ids,
      output_index = min_prompt_len,
      rng = g\<rparr>"

text \<open>
  Lines 95-180: everything up to \<^verbatim>\<open>token_ids = token_ids_tensor.tolist()\<close>. The
  result is the log of effects together with the exception raised or the final token
  buffer.
\<close>

definition generate_tokens ::
  "('o, 'g) imported \<Rightarrow> ('e, 'o) CausalLM \<Rightarrow> int list list \<Rightarrow> int \<Rightarrow> real option \<Rightarrow> real \<Rightarrow> int
     \<Rightarrow> 'g \<Rightarrow> event list \<times> (error + tensor2)" where
  "generate_tokens env self prompts_tokens output_len temperature top_p top_k g =
     (let batch_size = length prompts_tokens in
      case py_min (map length prompts_tokens) of
        Inl e \<Rightarrow> ([], Inl e)
      | Inr min_prompt_len \<Rightarrow>
      (case py_max (map length prompts_tokens) of
        Inl e \<Rightarrow> ([], Inl e)
      | Inr max_prompt_len \<Rightarrow>
      (let max_seq_len = int max_prompt_len + output_len in
       if \<not> max_seq_len \<le> pos_enc_max_len (decoder self) then ([], Inl AssertionError)
       else
      (case config self of
        None \<Rightarrow> ([], Inl AttributeError)
      | Some cfg \<Rightarrow>
      (let shape = (batch_size, n_kv_head (decoder self), min_prompt_len, head_dim (decoder self));
           layers = nat (num_hidden_layers cfg);
           kv_caches = build_kv_caches layers shape (KvList []);
           tr = replicate (2 * layers) (Torch_zeros shape)
                @ [Torch_full (batch_size, max_prompt_len), Torch_full (batch_size, min_prompt_len)]
       in
       case prepare_inputs (IGNORE_ID env) (sos self) prompts_tokens batch_size
              min_prompt_len max_prompt_len of
         Inl e \<Rightarrow> (tr, Inl e)
       | Inr (token_ids, input_token_ids) \<Rightarrow>
       (case index_select_rows (triu_mask max_prompt_len) [0..<min_prompt_len] of
         Inl e \<Rightarrow> (tr, Inl e)
       | Inr curr_mask_tensor \<Rightarrow>
       (let c = loop_constants (IGNORE_ID env) token_ids batch_size max_prompt_len
                  temperature top_p top_k;
            st = initial_state self token_ids input_token_ids curr_mask_tensor
                   min_prompt_len kv_caches g
        in
        case decode_loop env self c (nat (max_seq_len - int min_prompt_len)) st of
          (tr', Inl e) \<Rightarrow> (tr @ tr', Inl e)
        | (tr', Inr st') \<Rightarrow> (tr @ tr', Inr (token_ids_tensor st')))))))))"

definition generate ::
  "('o, 'g) imported \<Rightarrow> ('e, 'o) CausalLM \<Rightarrow> int list list \<Rightarrow> int \<Rightarrow> real option \<Rightarrow> real \<Rightarrow> int
     \<Rightarrow> 'g \<Rightarrow> event list \<times> (error + int list list)" where
  "generate env self prompts_tokens output_len temperature top_p top_k g =
     (case generate_tokens env self prompts_tokens output_len temperature top_p top_k g of
        (tr, Inl e) \<Rightarrow> (tr, Inl e)
      | (tr, Inr token_ids) \<Rightarrow>
          (tr, extract_results (eos self) prompts_tokens output_len (enumerate 0 token_ids)))"

section \<open>Counting decoder invocations\<close>

fun is_decoder_call :: "event \<Rightarrow> bool" where
  "is_decoder_call (Decoder_call c) = True"
| "is_decoder_call (Torch_zeros shape) = False"
| "is_decoder_call (Torch_full shape) = False"
| "is_decoder_call (Token_write j m s w) = False"

definition decoder_calls :: "event list \<Rightarrow> nat" where
  "decoder_calls tr = length (filter is_decoder_call tr)"

section \<open>A concrete instance\<close>

text \<open>
  Collaborators to run the procedure on: the embedding is the identity, the decoder
  returns the number of rows it was fed and the cache unchanged, the sampler proposes
  the token \<open>9 + g\<close> for every example and advances the generator state \<open>g\<close>.
\<close>

definition demo_decoder :: "(tensor2, nat) DecoderOnly" where
  "demo_decoder = \<lparr>hidden_size = 4, pos_enc_max_len = 16, n_kv_head = 1, head_dim = 2,
      call = (\<lambda>emb m pos c. (length emb, c))\<rparr>"

definition demo_env :: "(nat, nat) imported" where
  "demo_env = \<lparr>IGNORE_ID = - 1,
      sampler = (\<lambda>n t p k g. (replicate n (9 + int g), Suc g)),
      out_index_select = (\<lambda>out idx. out)\<rparr>"

definition demo_model :: "config option \<Rightarrow> (tensor2, nat) CausalLM" where
  "demo_model cfg = \<lparr>embed = (\<lambda>t. t), decoder = demo_decoder, sos = 1, eos = 2,
      vocab_size = 32, tie_word_embedding = False, ignore_id = - 1, config = cfg\<rparr>"


section \<open>Which exceptions each stage can raise\<close>

lemma py_min_eq: "xs \<noteq> [] \<Longrightarrow> py_min xs = Inr (Min (set xs))"
proof (cases xs)
  case (Cons a list)
  then show ?thesis using Min.set_eq_fold [of a list] by (simp add: py_min_def)
qed simp

lemma py_max_eq: "xs \<noteq> [] \<Longrightarrow> py_max xs = Inr (Max (set xs))"
proof (cases xs)
  case (Cons a list)
  then show ?thesis using Max.set_eq_fold [of a list] by (simp add: py_max_def)
qed simp

lemma decode_step_error:
  "decode_step env self c st = (tr, Inl e) \<Longrightarrow> e = IndexError \<or> e = RuntimeError"
  by (auto simp: decode_step_def select_column_def torch_where_def index_copy_column_def
      index_select_rows_def Let_def split: prod.splits sum.splits if_splits)

lemma decode_loop_error:
  "decode_loop env self c n st = (tr, Inl e) \<Longrightarrow> e = IndexError \<or> e = RuntimeError"
proof (induction n arbitrary: st tr)
  case 0
  then show ?case by simp
next
  case (Suc n)
  obtain tr1 r1 where s: "decode_step env self c st = (tr1, r1)"
    by (cases "decode_step env self c st")
  show ?case
  proof (cases r1)
    case (Inl e')
    with Suc.prems s decode_step_error [of env self c st tr1 e'] show ?thesis by auto
  next
    case (Inr st')
    with Suc.prems s obtain tr' where "decode_loop env self c n st' = (tr', Inl e)"
      by (auto split: prod.splits)
    then show ?thesis by (rule Suc.IH)
  qed
qed

lemma py_index_error: "py_index xs v = Inl e \<Longrightarrow> e = ValueError"
  by (induction xs) (auto split: if_splits sum.splits)

lemma trim_output_error: "trim_output eos_id p ol toks = Inl e \<Longrightarrow> e = ValueError"
  by (auto simp: trim_output_def Let_def split: if_splits sum.splits dest: py_index_error)

lemma extract_results_error:
  "extract_results eos_id ps ol rows = Inl e \<Longrightarrow> e = ValueError \<or> e = IndexError"
  by (induction eos_id ps ol rows rule: extract_results.induct)
     (auto split: if_splits sum.splits dest: trim_output_error)

lemma prepare_inputs_error:
  "prepare_inputs ign s ps b mn mx = Inl e \<Longrightarrow> e = RuntimeError"
  by (auto simp: prepare_inputs_def add_sos_def cat_last_def Let_def
      split: prod.splits if_splits sum.splits)

lemma generate_tokens_within_limit:
  assumes "prompts_tokens \<noteq> []"
    and "int (Max (set (map length prompts_tokens))) + output_len
           \<le> pos_enc_max_len (decoder self)"
  shows "snd (generate_tokens env self prompts_tokens output_len temperature top_p top_k g)
           \<noteq> Inl AssertionError"
  using assms
  by (auto simp: generate_tokens_def py_min_eq py_max_eq Let_def index_select_rows_def
      split: option.splits sum.splits prod.splits if_splits
      dest: prepare_inputs_error decode_loop_error)

section \<open>Shapes of the buffers\<close>

lemma initial_state_simps [simp]:
  "token_ids_tensor (initial_state self T I m mn kvc g) = T"
  "output_index (initial_state self T I m mn kvc g) = mn"
  "kv (initial_state self T I m mn kvc g) = kvc"
  by (simp_all add: initial_state_def)

lemma loop_constants_simps [simp]:
  "mask_tensor (loop_constants ign T b mx t tp tk) = triu_mask mx"
  "prompt_mask_tensor (loop_constants ign T b mx t tp tk) = map (map (\<lambda>t. t \<noteq> ign)) T"
  by (simp_all add: loop_constants_def)

lemma length_triu_mask: "length (triu_mask n) = n"
  by (simp add: triu_mask_def)

lemma decode_step_length:
  "decode_step env self c st = (tr, Inr st') \<Longrightarrow>
     length (token_ids_tensor st') = length (token_ids_tensor st)"
  by (auto simp: decode_step_def index_copy_column_def Let_def
      split: prod.splits sum.splits if_splits)

lemma decode_loop_length:
  "decode_loop env self c n st = (tr, Inr st') \<Longrightarrow>
     length (token_ids_tensor st') = length (token_ids_tensor st)"
proof (induction n arbitrary: st tr)
  case 0
  then show ?case by simp
next
  case (Suc n)
  from Suc.prems obtain st1 tr0 tr1 where s: "decode_step env self c st = (tr0, Inr st1)"
    and l: "decode_loop env self c n st1 = (tr1, Inr st')"
    by (auto split: sum.splits prod.splits)
  from Suc.IH [OF l] decode_step_length [OF s] show ?case by simp
qed

lemma right_padding_length:
  "length (fst (right_padding ps m (T, I))) = length T"
proof -
  have "length (fst (fold (\<lambda>(i, p) (t, u).
             (t[i := p @ drop (length p) (t ! i)],
              u[i := take m p @ drop m (u ! i)])) es (T, I))) = length T" for es
    by (induction es arbitrary: T I) (auto split: prod.splits)
  then show ?thesis by (simp add: right_padding_def)
qed

lemma prepare_inputs_length:
  assumes "prepare_inputs ign s ps b mn mx = Inr (T, I)"
  shows "length T = b \<and> b = 1"
proof -
  obtain T0 I0 where rp: "right_padding ps mn (full b mx ign, full b mn ign) = (T0, I0)"
    by (cases "right_padding ps mn (full b mx ign, full b mn ign)")
  have "length T0 = b"
    using right_padding_length [of ps mn "full b mx ign" "full b mn ign"] rp
    by (simp add: full_def)
  with assms rp show ?thesis
    by (auto simp: prepare_inputs_def add_sos_def cat_last_def Let_def
        split: sum.splits if_splits)
qed

lemma generate_tokens_rows:
  assumes "generate_tokens env self ps ol t p k g = (tr, Inr token_ids)"
  shows "length token_ids = length ps \<and> length ps = 1"
  using assms
  by (auto simp: generate_tokens_def Let_def
      split: option.splits sum.splits prod.splits if_splits
      dest!: prepare_inputs_length decode_loop_length)

lemma right_padding_single:
  "right_padding [p] (length p) (full 1 (length p) ign, full 1 (length p) ign) = ([p], [p])"
  by (simp add: right_padding_def full_def enumerate_simps)

lemma prepare_inputs_single:
  "prepare_inputs ign s [p] (Suc 0) (length p) (length p) = Inr ([s # p], [s # s # p])"
  using right_padding_single [of p ign]
  by (simp add: prepare_inputs_def add_sos_def cat_last_def)

lemma prepare_inputs_shape:
  "(\<exists>r. prepare_inputs ign s ps (length ps) mn mx = Inr r) \<longleftrightarrow> length ps = 1"
proof
  assume "\<exists>r. prepare_inputs ign s ps (length ps) mn mx = Inr r"
  then obtain T I where "prepare_inputs ign s ps (length ps) mn mx = Inr (T, I)" by auto
  from prepare_inputs_length [OF this] show "length ps = 1" by simp
next
  assume one: "length ps = 1"
  obtain T0 I0 where rp: "right_padding ps mn (full (length ps) mx ign, full (length ps) mn ign) = (T0, I0)"
    by (cases "right_padding ps mn (full (length ps) mx ign, full (length ps) mn ign)")
  have "length T0 = 1"
    using right_padding_length [of ps mn "full (length ps) mx ign" "full (length ps) mn ign"] rp one
    by (simp add: full_def)
  with rp one show "\<exists>r. prepare_inputs ign s ps (length ps) mn mx = Inr r"
    by (simp add: prepare_inputs_def add_sos_def cat_last_def Let_def)
qed

section \<open>Properties of the decode loop\<close>

lemma decode_step_index:
  "decode_step env self c st = (tr, Inr st') \<Longrightarrow> output_index st < length (mask_tensor c)"
  by (auto simp: decode_step_def index_select_rows_def Let_def
      split: prod.splits sum.splits if_splits)

lemma decoder_calls_append: "decoder_calls (a @ b) = decoder_calls a + decoder_calls b"
  by (simp add: decoder_calls_def)

lemma decoder_calls_simps [simp]:
  "decoder_calls [] = 0"
  "decoder_calls (Torch_zeros sh # tr) = decoder_calls tr"
  "decoder_calls (Torch_full sh2 # tr) = decoder_calls tr"
  "decoder_calls (Decoder_call k # tr) = Suc (decoder_calls tr)"
  "decoder_calls (Token_write j m s w # tr) = decoder_calls tr"
  "decoder_calls (replicate n (Torch_zeros sh)) = 0"
  by (simp_all add: decoder_calls_def)

lemma decode_step_calls: "decoder_calls (fst (decode_step env self c st)) = 1"
  by (simp add: decode_step_def Let_def split: prod.splits sum.splits)

lemma decode_loop_calls:
  "decoder_calls (fst (decode_loop env self c n st)) \<le> n"
proof (induction n arbitrary: st)
  case 0
  then show ?case by simp
next
  case (Suc n)
  obtain tr1 r1 where s: "decode_step env self c st = (tr1, r1)"
    by (cases "decode_step env self c st")
  with decode_step_calls [of env self c st] have one: "decoder_calls tr1 = 1" by simp
  show ?case
  proof (cases r1)
    case (Inl e)
    with s one show ?thesis by simp
  next
    case (Inr st1)
    obtain tr2 r2 where l: "decode_loop env self c n st1 = (tr2, r2)"
      by (cases "decode_loop env self c n st1")
    with Suc.IH [of st1] Inr s one show ?thesis
      by (simp add: decoder_calls_append)
  qed
qed

lemma decode_loop_stuck:
  assumes "length (mask_tensor c) \<le> output_index st"
  shows "decode_loop env self c n st = (tr, Inr st') \<Longrightarrow> n = 0"
    and "decoder_calls (fst (decode_loop env self c n st)) \<le> 1"
    and "set (fst (decode_loop env self c n st)) \<subseteq> set (fst (decode_step env self c st))"
proof -
  obtain tr1 r1 where s: "decode_step env self c st = (tr1, r1)"
    by (cases "decode_step env self c st")
  have "\<And>st1. r1 \<noteq> Inr st1"
    using assms s decode_step_index [of env self c st tr1] by fastforce
  then obtain e where e: "r1 = Inl e" by (cases r1) auto
  show "decode_loop env self c n st = (tr, Inr st') \<Longrightarrow> n = 0"
    using s e by (cases n) auto
  show "decoder_calls (fst (decode_loop env self c n st)) \<le> 1"
    using s e decode_step_calls [of env self c st] by (cases n) auto
  show "set (fst (decode_loop env self c n st)) \<subseteq> set (fst (decode_step env self c st))"
    using s e by (cases n) auto
qed

lemma decode_loop_stuck_result:
  assumes "decode_loop env self c n st = (tr, Inr st')"
    and "length (mask_tensor c) \<le> output_index st"
  shows "n = 0 \<and> st' = st \<and> tr = []"
proof -
  from decode_loop_stuck(1) [OF assms(2) assms(1)] have "n = 0" .
  with assms(1) show ?thesis by simp
qed

lemma decode_step_write:
  assumes "Token_write j m s w \<in> set (fst (decode_step env self c st))"
  shows "j = output_index st \<and> select_column (prompt_mask_tensor c) j = Inr m
     \<and> (\<exists>cur. select_column (token_ids_tensor st) j = Inr cur \<and> torch_where m cur s = Inr w)"
  using assms
  by (auto simp: decode_step_def Let_def split: prod.splits sum.splits)

lemma torch_where_forced:
  assumes "torch_where m cur s = Inr w" and "b < length m" and "m ! b"
  shows "w ! b = cur ! b"
  using assms by (auto simp: torch_where_def split: if_splits)

lemma fst_generate:
  "fst (generate env self ps ol t tp tk g) = fst (generate_tokens env self ps ol t tp tk g)"
  by (simp add: generate_def split: prod.splits sum.splits)

lemma generate_tokens_single:
  assumes "config self = Some cfg"
    and "int (length p) + ol \<le> pos_enc_max_len (decoder self)"
  shows "generate_tokens env self [p] ol t tp tk g =
     (case decode_loop env self
             (loop_constants (IGNORE_ID env) [sos self # p] (Suc 0) (length p) t tp tk) (nat ol)
             (initial_state self [sos self # p] [sos self # sos self # p]
                (map (nth (triu_mask (length p))) [0..<length p]) (length p)
                (build_kv_caches (nat (num_hidden_layers cfg))
                   (Suc 0, n_kv_head (decoder self), length p, head_dim (decoder self))
                   (KvList [])) g) of
        (tr', r) \<Rightarrow>
          (replicate (2 * nat (num_hidden_layers cfg))
             (Torch_zeros (Suc 0, n_kv_head (decoder self), length p, head_dim (decoder self)))
           @ [Torch_full (Suc 0, length p), Torch_full (Suc 0, length p)] @ tr',
           (case r of Inl e \<Rightarrow> Inl e | Inr st' \<Rightarrow> Inr (token_ids_tensor st'))))"
  using assms
  by (simp add: generate_tokens_def py_min_def py_max_def Let_def prepare_inputs_single
      index_select_rows_def length_triu_mask list_all_iff
      split: sum.splits prod.splits)

lemma generate_tokens_single_success:
  assumes "generate_tokens env self [p] ol t tp tk g = (tr, Inr token_ids)"
  shows "token_ids = [sos self # p] \<and> ol \<le> 0 \<and> decoder_calls tr = 0"
proof -
  from assms obtain cfg where cfg: "config self = Some cfg"
    and lim: "int (length p) + ol \<le> pos_enc_max_len (decoder self)"
    by (auto simp: generate_tokens_def py_min_def py_max_def Let_def
        split: option.splits if_splits)
  show ?thesis
    using assms unfolding generate_tokens_single [OF cfg lim]
    by (auto simp: length_triu_mask decoder_calls_append
        split: prod.splits sum.splits dest!: decode_loop_stuck_result)
qed

lemma generate_tokens_decoder_calls:
  "decoder_calls (fst (generate_tokens env self ps ol t tp tk g)) \<le> 1"
proof (cases "length ps = 1")
  case True
  then obtain p where ps: "ps = [p]" by (cases ps) auto
  show ?thesis
  proof (cases "int (length p) + ol \<le> pos_enc_max_len (decoder self)")
    case lim: True
    show ?thesis
    proof (cases "config self")
      case None
      then show ?thesis
        by (simp add: ps generate_tokens_def py_min_def py_max_def Let_def)
    next
      case (Some cfg)
      let ?c = "loop_constants (IGNORE_ID env) [sos self # p] (Suc 0) (length p) t tp tk"
      let ?st = "initial_state self [sos self # p] [sos self # sos self # p]
                (map (nth (triu_mask (length p))) [0..<length p]) (length p)
                (build_kv_caches (nat (num_hidden_layers cfg))
                   (Suc 0, n_kv_head (decoder self), length p, head_dim (decoder self))
                   (KvList [])) g"
      have "decoder_calls (fst (decode_loop env self ?c (nat ol) ?st)) \<le> 1"
        by (rule decode_loop_stuck(2)) (simp add: length_triu_mask)
      then show ?thesis
        unfolding ps generate_tokens_single [OF Some lim]
        by (auto simp: decoder_calls_append split: prod.splits)
    qed
  next
    case False
    then show ?thesis
      by (simp add: ps generate_tokens_def py_min_def py_max_def Let_def)
  qed
next
  case False
  then have "prepare_inputs ign s ps (length ps) mn mx = Inl RuntimeError" for ign s mn mx
    using prepare_inputs_shape [of ign s ps mn mx] prepare_inputs_error [of ign s ps "length ps" mn mx]
    by (cases "prepare_inputs ign s ps (length ps) mn mx") auto
  then show ?thesis
    by (simp add: generate_tokens_def Let_def decoder_calls_def
        split: option.splits sum.splits prod.splits)
qed

lemma generate_decoder_calls:
  "decoder_calls (fst (generate env self ps ol t tp tk g)) \<le> 1"
  using generate_tokens_decoder_calls [of env self ps ol t tp tk g]
  by (simp add: fst_generate)

lemma generate_tokens_batch_trace:
  assumes "length ps \<noteq> 1"
  shows "Token_write j m s w \<notin> set (fst (generate_tokens env self ps ol t tp tk g))"
proof -
  have "prepare_inputs ign so ps (length ps) mn mx = Inl RuntimeError" for ign so mn mx
    using assms prepare_inputs_shape [of ign so ps mn mx]
      prepare_inputs_error [of ign so ps "length ps" mn mx]
    by (cases "prepare_inputs ign so ps (length ps) mn mx") auto
  then show ?thesis
    by (simp add: generate_tokens_def Let_def split: option.splits sum.splits prod.splits)
qed

lemma generate_tokens_single_write:
  assumes "Token_write j m s w \<in> set (fst (generate_tokens env self [p] ol t tp tk g))"
  shows "j = length p \<and> m = [(sos self # p) ! length p \<noteq> IGNORE_ID env]
     \<and> torch_where m [(sos self # p) ! length p] s = Inr w"
proof -
  from assms have lim: "int (length p) + ol \<le> pos_enc_max_len (decoder self)"
    by (auto simp: generate_tokens_def py_min_def py_max_def Let_def split: if_splits)
  from assms lim obtain cfg where cfg: "config self = Some cfg"
    by (cases "config self") (auto simp: generate_tokens_def py_min_def py_max_def Let_def)
  let ?c = "loop_constants (IGNORE_ID env) [sos self # p] (Suc 0) (length p) t tp tk"
  let ?st = "initial_state self [sos self # p] [sos self # sos self # p]
                (map (nth (triu_mask (length p))) [0..<length p]) (length p)
                (build_kv_caches (nat (num_hidden_layers cfg))
                   (Suc 0, n_kv_head (decoder self), length p, head_dim (decoder self))
                   (KvList [])) g"
  from assms have "Token_write j m s w \<in> set (fst (decode_loop env self ?c (nat ol) ?st))"
    unfolding generate_tokens_single [OF cfg lim]
    by (auto split: prod.splits)
  moreover have "set (fst (decode_loop env self ?c (nat ol) ?st))
      \<subseteq> set (fst (decode_step env self ?c ?st))"
    by (rule decode_loop_stuck(3)) (simp add: length_triu_mask)
  ultimately have "Token_write j m s w \<in> set (fst (decode_step env self ?c ?st))"
    by blast
  from decode_step_write [OF this] show ?thesis
    by (auto simp: select_column_def nth_Cons' split: if_splits)
qed

lemma generate_never_returns_batch:
  assumes "1 < length ps"
  shows "snd (generate env self ps ol t tp tk g) \<noteq> Inr rs"
proof
  assume r: "snd (generate env self ps ol t tp tk g) = Inr rs"
  then obtain tr token_ids where "generate_tokens env self ps ol t tp tk g = (tr, Inr token_ids)"
    by (auto simp: generate_def split: prod.splits sum.splits)
  from generate_tokens_rows [OF this] assms show False by simp
qed

lemma generate_batch_shape_error:
  assumes "1 < length ps" and "config self = Some cfg"
    and "int (Max (set (map length ps))) + ol \<le> pos_enc_max_len (decoder self)"
  shows "snd (generate env self ps ol t tp tk g) = Inl RuntimeError"
    and "decoder_calls (fst (generate env self ps ol t tp tk g)) = 0"
proof -
  from assms(1) have ne: "map length ps \<noteq> []" by auto
  have pi: "prepare_inputs ign s ps (length ps) mn mx = Inl RuntimeError" for ign s mn mx
    using assms(1) prepare_inputs_shape [of ign s ps mn mx]
      prepare_inputs_error [of ign s ps "length ps" mn mx]
    by (cases "prepare_inputs ign s ps (length ps) mn mx") auto
  have gt: "generate_tokens env self ps ol t tp tk g =
      (replicate (2 * nat (num_hidden_layers cfg))
         (Torch_zeros (length ps, n_kv_head (decoder self), Min (set (map length ps)),
            head_dim (decoder self)))
       @ [Torch_full (length ps, Max (set (map length ps))),
          Torch_full (length ps, Min (set (map length ps)))], Inl RuntimeError)"
    using assms(2,3)
    by (simp add: generate_tokens_def py_min_eq [OF ne] py_max_eq [OF ne] Let_def pi)
  show "snd (generate env self ps ol t tp tk g) = Inl RuntimeError"
    by (simp add: generate_def gt)
  show "decoder_calls (fst (generate env self ps ol t tp tk g)) = 0"
    by (simp add: generate_def gt decoder_calls_append)
qed

lemma generate_batch_error:
  assumes "1 < length ps"
  shows "snd (generate env self ps ol t tp tk g) =
     (if \<not> int (Max (set (map length ps))) + ol \<le> pos_enc_max_len (decoder self)
      then Inl AssertionError
      else if config self = None then Inl AttributeError else Inl RuntimeError)"
proof -
  from assms have ne: "map length ps \<noteq> []" by auto
  show ?thesis
  proof (cases "int (Max (set (map length ps))) + ol \<le> pos_enc_max_len (decoder self)")
    case False
    then show ?thesis
      by (simp add: generate_def generate_tokens_def py_min_eq [OF ne] py_max_eq [OF ne] Let_def)
  next
    case lim: True
    show ?thesis
    proof (cases "config self")
      case None
      with lim show ?thesis
        by (simp add: generate_def generate_tokens_def py_min_eq [OF ne] py_max_eq [OF ne] Let_def)
    next
      case (Some cfg)
      with lim generate_batch_shape_error(1) [OF assms Some lim, of env t tp tk g]
      show ?thesis by simp
    qed
  qed
qed

lemma build_kv_caches_pos:
  "0 < n \<Longrightarrow> build_kv_caches n shape kvc = KvTuple (zeros shape) (zeros shape)"
proof (induction n arbitrary: kvc)
  case 0
  then show ?case by simp
next
  case (Suc n)
  then show ?case by (cases n) simp_all
qed

lemma generate_after_init:
  assumes "CausalLM_init vocab dec special_tokens tie ignore embed_module = Inr m"
    and "prompts_tokens \<noteq> []"
    and "int (Max (set (map length prompts_tokens))) + output_len \<le> pos_enc_max_len dec"
  shows "generate env m prompts_tokens output_len temperature top_p top_k g
           = ([], Inl AttributeError)"
proof -
  from assms(1) have "config m = None" "decoder m = dec"
    by (auto simp: CausalLM_init_def split: option.splits)
  with assms(2,3) show ?thesis
    by (simp add: generate_def generate_tokens_def py_min_eq py_max_eq Let_def)
qed

section \<open>Properties of the output extraction\<close>

lemma py_index_first:
  "k < length xs \<Longrightarrow> xs ! k = v \<Longrightarrow> (\<forall>j<k. xs ! j \<noteq> v) \<Longrightarrow> py_index xs v = Inr k"
proof (induction xs arbitrary: k)
  case Nil
  then show ?case by simp
next
  case (Cons x xs)
  show ?case
  proof (cases k)
    case 0
    with Cons.prems show ?thesis by simp
  next
    case (Suc k')
    with Cons.prems have "x \<noteq> v" by auto
    moreover from Suc Cons.prems have "py_index xs v = Inr k'"
      by (intro Cons.IH) auto
    ultimately show ?thesis using Suc by simp
  qed
qed

lemma py_index_member: "v \<in> set xs \<Longrightarrow> \<exists>k. py_index xs v = Inr k"
  by (induction xs) auto

lemma py_slice_prefix: "py_slice xs 0 (int k) = take k xs"
  by (simp add: py_slice_def py_bound_def Let_def min_def)

lemma trim_output_total: "\<exists>r. trim_output eos_id p ol toks = Inr r"
  using py_index_member [of eos_id "continuation p ol toks"]
  by (auto simp: trim_output_def Let_def)

lemma trim_output_at_eos:
  assumes "k < length (continuation p ol toks)"
    and "continuation p ol toks ! k = eos_id"
    and "\<forall>j<k. continuation p ol toks ! j \<noteq> eos_id"
  shows "trim_output eos_id p ol toks = Inr (take k (continuation p ol toks))"
proof -
  from assms(1,2) have "eos_id \<in> set (continuation p ol toks)"
    by (auto simp: in_set_conv_nth)
  moreover have "py_index (continuation p ol toks) eos_id = Inr k"
    using assms by (rule py_index_first)
  ultimately show ?thesis
    by (simp add: trim_output_def Let_def py_slice_prefix)
qed

lemma take_no_eos:
  assumes "k \<le> length c" and "\<forall>j<k. c ! j \<noteq> (v::int)"
  shows "v \<notin> set (take k c)"
  using assms by (auto simp: in_set_conv_nth)

lemma extract_results_enumerate:
  "n + length rows \<le> length ps \<Longrightarrow>
     \<exists>rs. extract_results eos_id ps ol (enumerate n rows) = Inr rs \<and> length rs = length rows
        \<and> (\<forall>i<length rows. trim_output eos_id (ps ! (n + i)) ol (rows ! i) = Inr (rs ! i))"
proof (induction rows arbitrary: n)
  case Nil
  then show ?case by simp
next
  case (Cons row rows)
  obtain r where r: "trim_output eos_id (ps ! n) ol row = Inr r"
    using trim_output_total by blast
  from Cons.prems have "Suc n + length rows \<le> length ps" by simp
  from Cons.IH [OF this] obtain rs where
    rs: "extract_results eos_id ps ol (enumerate (Suc n) rows) = Inr rs"
      "length rs = length rows"
      "\<forall>i<length rows. trim_output eos_id (ps ! (Suc n + i)) ol (rows ! i) = Inr (rs ! i)"
    by blast
  have "\<forall>i<length (row # rows). trim_output eos_id (ps ! (n + i)) ol ((row # rows) ! i)
          = Inr ((r # rs) ! i)"
  proof (intro allI impI)
    fix i assume "i < length (row # rows)"
    then show "trim_output eos_id (ps ! (n + i)) ol ((row # rows) ! i) = Inr ((r # rs) ! i)"
      using r rs(3) by (cases i) auto
  qed
  with Cons.prems r rs(1,2) show ?case by simp
qed

lemma continuation_after_sos:
  assumes "p \<noteq> []" and "0 \<le> ol"
  shows "continuation p ol (s # p @ gen) = take (nat ol) (last p # gen)"
proof -
  have d: "drop (length p) (s # p @ gen) = last p # gen"
    using assms(1) by (cases p rule: rev_cases) simp_all
  have "py_bound (int (length p)) (length (s # p @ gen)) = length p"
    by (simp add: py_bound_def)
  moreover have "py_bound (int (length p) + ol) (length (s # p @ gen))
      = min (length p + nat ol) (Suc (length p + length gen))"
    using assms(2) by (simp add: py_bound_def nat_add_distrib)
  ultimately show ?thesis
    using d by (simp add: continuation_def py_slice_def Let_def min_def)
qed

lemma trim_output_length:
  assumes "trim_output eos_id p ol toks = Inr r" and "0 \<le> ol"
  shows "int (length r) \<le> ol"
proof -
  have "int (length (continuation p ol toks)) \<le> ol"
    using assms(2) by (auto simp: continuation_def py_slice_def py_bound_def Let_def)
  moreover from assms(1) have "length r \<le> length (continuation p ol toks)"
    by (auto simp: trim_output_def Let_def py_slice_prefix split: if_splits sum.splits)
  ultimately show ?thesis by simp
qed



section \<open>Runs of the concrete instance\<close>

lemma demo_first_step:
  "generate_tokens demo_env (demo_model (Some \<lparr>num_hidden_layers = 2\<rparr>)) [[5, 6]] 1 None 1 100 0
  = ([Torch_zeros (1, 1, 2, 2), Torch_zeros (1, 1, 2, 2), Torch_zeros (1, 1, 2, 2),
      Torch_zeros (1, 1, 2, 2), Torch_full (1, 2), Torch_full (1, 2),
      Decoder_call (KvTuple (zeros (1, 1, 2, 2)) (zeros (1, 1, 2, 2))),
      Token_write 2 [True] [9] [6]], Inl IndexError)"
  by code_simp

lemma demo_generate_tokens:
  "generate_tokens demo_env (demo_model (Some \<lparr>num_hidden_layers = 2\<rparr>)) [[5, 6]] 0 None 1 100 0
  = ([Torch_zeros (1, 1, 2, 2), Torch_zeros (1, 1, 2, 2), Torch_zeros (1, 1, 2, 2),
      Torch_zeros (1, 1, 2, 2), Torch_full (1, 2), Torch_full (1, 2)], Inr [[1, 5, 6]])"
  by code_simp


section \<open>Rejected calls\<close>

text \<open>
  Claim C9. A call with zero prompts is rejected before any buffer is allocated and
  without any decoder invocation: \<^verbatim>\<open>min(len(p) for p in prompts_tokens)\<close> of line 96
  raises on the empty sequence, so the log of effects is empty. The exception Python
  raises there is \<open>ValueError\<close>; it is the rejection the specification calls
  EmptyBatchError.
\<close>

theorem generate_empty_batch:
  "generate env self [] output_len temperature top_p top_k g = ([], Inl ValueError)"
  by (simp add: generate_def generate_tokens_def py_min_def)

text \<open>
  Claim C8. For a batch of at least one prompt, when the longest prompt length plus
  \<open>output_len\<close> exceeds the decoder's maximum position, \<^verbatim>\<open>generate\<close> raises the
  assertion failure of line 99 (the specification's ConfigurationError) with an empty
  log of effects: nothing was allocated, the decoder was never invoked and there is no
  result. When the sum is within the limit, that exception is not raised.
\<close>

theorem generate_length_check:
  assumes "prompts_tokens \<noteq> []"
  shows "(pos_enc_max_len (decoder self) < int (Max (set (map length prompts_tokens))) + output_len
           \<longrightarrow> generate env self prompts_tokens output_len temperature top_p top_k g
                 = ([], Inl AssertionError))
       \<and> (int (Max (set (map length prompts_tokens))) + output_len \<le> pos_enc_max_len (decoder self)
           \<longrightarrow> snd (generate env self prompts_tokens output_len temperature top_p top_k g)
                 \<noteq> Inl AssertionError)"
proof (intro conjI impI)
  assume "pos_enc_max_len (decoder self) < int (Max (set (map length prompts_tokens))) + output_len"
  with assms show "generate env self prompts_tokens output_len temperature top_p top_k g
                 = ([], Inl AssertionError)"
    by (simp add: generate_def generate_tokens_def py_min_eq py_max_eq Let_def)
next
  assume le: "int (Max (set (map length prompts_tokens))) + output_len
                \<le> pos_enc_max_len (decoder self)"
  have "snd (generate_tokens env self prompts_tokens output_len temperature top_p top_k g)
      \<noteq> Inl AssertionError"
    by (rule generate_tokens_within_limit [OF assms le])
  then show "snd (generate env self prompts_tokens output_len temperature top_p top_k g)
                 \<noteq> Inl AssertionError"
    by (auto simp: generate_def split: prod.splits sum.splits dest: extract_results_error)
qed

theorem generate_length_check_witness:
  "[[5, 6]] \<noteq> ([] :: int list list)
   \<and> pos_enc_max_len (decoder (demo_model None)) < int (Max (set (map length [[5, 6 :: int]]))) + 30
   \<and> generate demo_env (demo_model None) [[5, 6]] 30 None 1 100 0 = ([], Inl AssertionError)
   \<and> int (Max (set (map length [[5, 6 :: int]]))) + 1 \<le> pos_enc_max_len (decoder (demo_model None))
   \<and> snd (generate demo_env (demo_model None) [[5, 6]] 1 None 1 100 0) \<noteq> Inl AssertionError"
  using generate_length_check [of "[[5, 6]]" "demo_model None" 30 demo_env None 1 100 0]
    generate_length_check [of "[[5, 6]]" "demo_model None" 1 demo_env None 1 100 0]
  by (simp add: demo_model_def demo_decoder_def)

section \<open>The KV cache\<close>

text \<open>
  Claim C1 says that the cache handed to the first decoder step is the collection of
  \<open>num_hidden_layers\<close> zero-initialised (key, value) pairs. The source allocates a pair
  per layer but rebinds \<^verbatim>\<open>kv_caches\<close> to the pair each time instead of appending
  it, so with one layer or more the decoder receives a single pair: a two-element tuple
  of tensors (see \<open>build_kv_caches_pos\<close>). With two layers and the single prompt
  \<open>[5, 6]\<close>, four tensors are allocated and the one decoder invocation that takes place
  is handed one pair, not a list of two.
\<close>

theorem kv_caches_single_pair:
  "build_kv_caches 2 (1, 1, 2, 2) (KvList []) = KvTuple (zeros (1, 1, 2, 2)) (zeros (1, 1, 2, 2))
   \<and> build_kv_caches 2 (1, 1, 2, 2) (KvList [])
       \<noteq> KvList (replicate 2 (zeros (1, 1, 2, 2), zeros (1, 1, 2, 2)))
   \<and> generate demo_env (demo_model (Some \<lparr>num_hidden_layers = 2\<rparr>)) [[5, 6]] 1 None 1 100 0
       = ([Torch_zeros (1, 1, 2, 2), Torch_zeros (1, 1, 2, 2), Torch_zeros (1, 1, 2, 2),
           Torch_zeros (1, 1, 2, 2), Torch_full (1, 2), Torch_full (1, 2),
           Decoder_call (KvTuple (zeros (1, 1, 2, 2)) (zeros (1, 1, 2, 2))),
           Token_write 2 [True] [9] [6]], Inl IndexError)"
  by code_simp

section \<open>Teacher forcing\<close>

text \<open>
  Claim C2, on every call of \<^verbatim>\<open>generate\<close>, whether it returns or raises. Each write
  into the token buffer that the call performs (line 168) is at a position \<open>j\<close> inside
  the start-of-sequence token followed by the prompt; the prompt mask the call built is
  true for an example exactly when the token there is not the sentinel; and where the
  mask is true the token written is that token of the example, whatever the sampler
  proposed. And when lines 95-180 complete, the final token buffer holds, after the
  start-of-sequence token, each example's prompt unchanged.
\<close>

theorem teacher_forcing:
  assumes "generate_tokens env self prompts_tokens output_len temperature top_p top_k g = (tr, r)"
  shows "(Token_write j m s w \<in> set tr \<and> b < length prompts_tokens \<longrightarrow>
            j \<le> length (prompts_tokens ! b)
          \<and> m ! b = ((sos self # prompts_tokens ! b) ! j \<noteq> IGNORE_ID env)
          \<and> (m ! b \<longrightarrow> w ! b = (sos self # prompts_tokens ! b) ! j))
       \<and> (r = Inr token_ids \<longrightarrow>
            (\<forall>i<length prompts_tokens.
               take (length (prompts_tokens ! i)) (drop 1 (token_ids ! i)) = prompts_tokens ! i))"
proof (intro conjI impI allI)
  assume "Token_write j m s w \<in> set tr \<and> b < length prompts_tokens"
  then have ev: "Token_write j m s w \<in> set tr" and b: "b < length prompts_tokens" by simp_all
  from ev assms have "length prompts_tokens = 1"
    using generate_tokens_batch_trace [of prompts_tokens j m s w env self output_len temperature
        top_p top_k g]
    by auto
  then obtain p where ps: "prompts_tokens = [p]" by (cases prompts_tokens) auto
  from ev assms ps
  have "Token_write j m s w \<in> set (fst (generate_tokens env self [p] output_len temperature
      top_p top_k g))" by simp
  from generate_tokens_single_write [OF this]
  have j: "j = length p" and m: "m = [(sos self # p) ! length p \<noteq> IGNORE_ID env]"
    and w: "torch_where m [(sos self # p) ! length p] s = Inr w" by blast+
  from ps b have b0: "b = 0" by simp
  show "j \<le> length (prompts_tokens ! b)" using j ps b0 by simp
  show "m ! b = ((sos self # prompts_tokens ! b) ! j \<noteq> IGNORE_ID env)"
    using j m ps b0 by simp
  assume mb: "m ! b"
  from torch_where_forced [OF w _ mb] m b0 j ps
  show "w ! b = (sos self # prompts_tokens ! b) ! j" by simp
next
  fix i
  assume r: "r = Inr token_ids" and i: "i < length prompts_tokens"
  from assms r have gt: "generate_tokens env self prompts_tokens output_len temperature top_p
      top_k g = (tr, Inr token_ids)" by simp
  from generate_tokens_rows [OF gt] obtain p where ps: "prompts_tokens = [p]"
    by (cases prompts_tokens) auto
  from gt [unfolded ps] have "token_ids = [sos self # p]"
    by (simp add: generate_tokens_single_success)
  with ps i show "take (length (prompts_tokens ! i)) (drop 1 (token_ids ! i)) = prompts_tokens ! i"
    by simp
qed

theorem teacher_forcing_witness:
  "generate_tokens demo_env (demo_model (Some \<lparr>num_hidden_layers = 2\<rparr>)) [[5, 6]] 1 None 1 100 0
     = ([Torch_zeros (1, 1, 2, 2), Torch_zeros (1, 1, 2, 2), Torch_zeros (1, 1, 2, 2),
         Torch_zeros (1, 1, 2, 2), Torch_full (1, 2), Torch_full (1, 2),
         Decoder_call (KvTuple (zeros (1, 1, 2, 2)) (zeros (1, 1, 2, 2))),
         Token_write 2 [True] [9] [6]], Inl IndexError)
   \<and> Token_write 2 [True] [9] [6] \<in> set
        [Torch_zeros (1, 1, 2, 2), Torch_zeros (1, 1, 2, 2), Torch_zeros (1, 1, 2, 2),
         Torch_zeros (1, 1, 2, 2), Torch_full (1, 2), Torch_full (1, 2),
         Decoder_call (KvTuple (zeros (1, 1, 2, 2)) (zeros (1, 1, 2, 2))),
         Token_write 2 [True] [9] [6]]
   \<and> 0 < length [[5, 6 :: int]]
   \<and> 2 \<le> length ([[5, 6 :: int]] ! 0)
   \<and> [True] ! 0 = ((sos (demo_model (Some \<lparr>num_hidden_layers = 2\<rparr>)) # [[5, 6]] ! 0) ! 2
                      \<noteq> IGNORE_ID demo_env)
   \<and> [6] ! 0 = (sos (demo_model (Some \<lparr>num_hidden_layers = 2\<rparr>)) # [[5, 6]] ! 0) ! 2
   \<and> generate_tokens demo_env (demo_model (Some \<lparr>num_hidden_layers = 2\<rparr>)) [[5, 6]] 0 None 1 100 0
       = ([Torch_zeros (1, 1, 2, 2), Torch_zeros (1, 1, 2, 2), Torch_zeros (1, 1, 2, 2),
           Torch_zeros (1, 1, 2, 2), Torch_full (1, 2), Torch_full (1, 2)], Inr [[1, 5, 6]])
   \<and> take (length ([[5, 6 :: int]] ! 0)) (drop 1 ([[1, 5, 6 :: int]] ! 0)) = [[5, 6]] ! 0"
proof -
  have forced: "2 \<le> length ([[5, 6 :: int]] ! 0)
      \<and> [True] ! 0 = ((sos (demo_model (Some \<lparr>num_hidden_layers = 2\<rparr>)) # [[5, 6]] ! 0) ! 2
                      \<noteq> IGNORE_ID demo_env)
      \<and> [6] ! 0 = (sos (demo_model (Some \<lparr>num_hidden_layers = 2\<rparr>)) # [[5, 6]] ! 0) ! 2"
    using teacher_forcing [OF demo_first_step, where j = 2 and m = "[True]" and s = "[9]"
        and w = "[6]" and b = 0, THEN conjunct1]
    by simp
  have kept: "take (length ([[5, 6 :: int]] ! 0)) (drop 1 ([[1, 5, 6 :: int]] ! 0)) = [[5, 6]] ! 0"
    using teacher_forcing [OF demo_generate_tokens, where token_ids = "[[1, 5, 6]]",
        THEN conjunct2]
    by simp
  from forced kept demo_first_step demo_generate_tokens show ?thesis by simp
qed

section \<open>The missing attribute\<close>

text \<open>
  Claim C3 asks that a call with a non-empty batch reaches the decode loop and returns.
  An object as \<^verbatim>\<open>__init__\<close> leaves it has no \<^verbatim>\<open>config\<close>, and line 103 reads
  \<^verbatim>\<open>self.config.num_hidden_layers\<close>: every call that passes the length checks
  raises \<open>AttributeError\<close> before anything is allocated (in general,
  \<open>generate_after_init\<close>). Here the object is built from the special tokens
  \<open>sos = 1\<close>, \<open>eos = 2\<close> and called with the prompt \<open>[5, 6]\<close>.
\<close>

theorem generate_after_init_demo:
  "(case CausalLM_init 32 demo_decoder [''sos'' \<mapsto> 1, ''eos'' \<mapsto> 2] False (- 1) (\<lambda>t. t) of
      Inl e \<Rightarrow> False
    | Inr m \<Rightarrow> generate demo_env m [[5, 6]] 1 None 1 100 0 = ([], Inl AttributeError))"
  by (simp add: CausalLM_init_def generate_def generate_tokens_def py_min_def py_max_def
      demo_decoder_def)

section \<open>The start-of-sequence prepend\<close>

text \<open>
  Claim C4 says that the initial decoder input is the start-of-sequence token followed
  by the first \<open>min_prompt_len\<close> prompt tokens, once per example. The right-padding
  loop does fill the two buffers as described (first equation). The prepend then fails
  for a batch of two prompts, and for the single prompt \<open>[5, 6]\<close> the working buffer
  comes out as \<open>[1, 1, 5, 6]\<close>: line 127 concatenates the start token with the token
  buffer, which already carries it, and not with the working buffer (in general,
  \<open>prepare_inputs_single\<close>).
\<close>

theorem add_sos_working_buffer:
  "right_padding [[5, 6, 7], [5, 6]] 2 (full 2 3 (- 1), full 2 2 (- 1))
     = ([[5, 6, 7], [5, 6, - 1]], [[5, 6], [5, 6]])
   \<and> prepare_inputs (- 1) 1 [[5, 6, 7], [5, 6]] 2 2 3 = Inl RuntimeError
   \<and> prepare_inputs (- 1) 1 [[5, 6]] 1 2 2 = Inr ([[1, 5, 6]], [[1, 1, 5, 6]])"
  by code_simp

text \<open>
  Claim C10 as stated: every batch of more than one prompt fails with a shape mismatch.
  It does not hold on an object as the constructor leaves it: the two-prompt call raises
  \<open>AttributeError\<close> at line 103 and never gets to the prepend.
\<close>

theorem sos_prepend_not_reached:
  "CausalLM_init 32 demo_decoder [''sos'' \<mapsto> 1, ''eos'' \<mapsto> 2] False (- 1) (\<lambda>t. t)
     = Inr (demo_model None)
   \<and> 1 < length [[5, 6, 7], [5, 6 :: int]]
   \<and> generate demo_env (demo_model None) [[5, 6, 7], [5, 6]] 3 None 1 100 0
       = ([], Inl AttributeError)
   \<and> snd (generate demo_env (demo_model None) [[5, 6, 7], [5, 6]] 3 None 1 100 0)
       \<noteq> Inl RuntimeError"
  by (simp add: CausalLM_init_def demo_model_def generate_def generate_tokens_def py_min_def
      py_max_def demo_decoder_def)

text \<open>
  Claim C10 as amended. The start-of-sequence tensor is one row of \<open>batch_size\<close>
  entries, so its concatenation with the token buffer of \<open>batch_size\<close> rows succeeds
  exactly when the batch holds one prompt. For a batch of more than one prompt
  \<^verbatim>\<open>generate\<close> never returns outputs, and the exception is the shape mismatch
  exactly when the call gets as far as the prepend: the \<^verbatim>\<open>config\<close> attribute is
  present and the length check passes.
\<close>

theorem sos_prepend_shape:
  "((\<exists>r. prepare_inputs ign s prompts_tokens (length prompts_tokens) mn mx = Inr r)
      \<longleftrightarrow> length prompts_tokens = 1)
   \<and> (1 < length prompts_tokens \<longrightarrow>
        (\<forall>rs. snd (generate env self prompts_tokens output_len temperature top_p top_k g) \<noteq> Inr rs))
   \<and> (1 < length prompts_tokens \<longrightarrow>
        (snd (generate env self prompts_tokens output_len temperature top_p top_k g)
           = Inl RuntimeError
         \<longleftrightarrow> config self \<noteq> None
             \<and> int (Max (set (map length prompts_tokens))) + output_len
                  \<le> pos_enc_max_len (decoder self)))"
  using prepare_inputs_shape [of ign s prompts_tokens mn mx]
    generate_never_returns_batch [of prompts_tokens env self output_len temperature top_p top_k g]
    generate_batch_error [of prompts_tokens env self output_len temperature top_p top_k g]
  by auto

theorem sos_prepend_shape_witness:
  "(\<nexists>r. prepare_inputs (- 1) 1 [[5, 6, 7], [5, 6]] (length [[5, 6, 7], [5, 6 :: int]]) 2 3 = Inr r)
   \<and> 1 < length [[5, 6, 7], [5, 6 :: int]]
   \<and> config (demo_model (Some \<lparr>num_hidden_layers = 2\<rparr>)) \<noteq> None
   \<and> int (Max (set (map length [[5, 6, 7], [5, 6 :: int]]))) + 3
        \<le> pos_enc_max_len (decoder (demo_model (Some \<lparr>num_hidden_layers = 2\<rparr>)))
   \<and> snd (generate demo_env (demo_model (Some \<lparr>num_hidden_layers = 2\<rparr>))
           [[5, 6, 7], [5, 6]] 3 None 1 100 0) = Inl RuntimeError"
  using sos_prepend_shape [of "- 1" 1 "[[5, 6, 7], [5, 6]]" 2 3 demo_env
      "demo_model (Some \<lparr>num_hidden_layers = 2\<rparr>)" 3 None 1 100 0]
  by (simp add: demo_model_def demo_decoder_def)

section \<open>End-of-sequence truncation\<close>


section \<open>Length of the returned sequences\<close>




section \<open>How often the decoder runs\<close>

text \<open>
  Claim C7 says that the loop runs \<open>max_prompt_len + output_len - min_prompt_len\<close>
  iterations, four for the prompts \<open>[5, 6, 7]\<close>, \<open>[5, 6]\<close> and \<open>output_len = 3\<close>.
  On that input the call ends in the shape mismatch of the prepend without a single
  decoder invocation. For the one prompt \<open>[5, 6]\<close> and \<open>output_len = 3\<close> the first
  iteration invokes the decoder and then fails at line 173: the causal mask has
  \<open>max_prompt_len\<close> rows and the row selected is \<open>min_prompt_len\<close>, equal to it for
  a single prompt. No call invokes the decoder more than once
  (\<open>generate_decoder_calls\<close>).
\<close>

theorem decode_loop_iterations_demo:
  "decoder_calls (fst (generate demo_env (demo_model (Some \<lparr>num_hidden_layers = 2\<rparr>))
       [[5, 6, 7], [5, 6]] 3 None 1 100 0)) = 0
   \<and> snd (generate demo_env (demo_model (Some \<lparr>num_hidden_layers = 2\<rparr>))
       [[5, 6, 7], [5, 6]] 3 None 1 100 0) = Inl RuntimeError
   \<and> decoder_calls (fst (generate demo_env (demo_model (Some \<lparr>num_hidden_layers = 2\<rparr>))
       [[5, 6]] 3 None 1 100 0)) = 1
   \<and> snd (generate demo_env (demo_model (Some \<lparr>num_hidden_layers = 2\<rparr>))
       [[5, 6]] 3 None 1 100 0) = Inl IndexError"
  by code_simp

end
